theory Spec2Isabelle
  imports Complex_Main "HOL-Library.Sublist"
begin

section \<open>CityMap: the data model of \<^verbatim>\<open>src/components/CityMap.tsx\<close>\<close>

text \<open>
  The component is a React function component around a third-party map widget. Its
  own code is: the static POI table, the category table, the marker rebuild
  \<^verbatim>\<open>addMarkers\<close>, two effects (marker update and map initialisation with its
  cleanup) and the render function. The embedding keeps these as functions on an
  explicit component state; the widget (map, markers, popups) is represented by the
  part of its state the component's code can observe or change.

  JavaScript strings are modelled as \<^typ>\<open>string\<close>; a character outside ASCII is
  written as the bytes of its UTF-8 encoding in the source file. No property below
  depends on the length of such a string. Coordinates are decimal literals that the
  code only copies, never computes with; they are modelled as exact rationals.
\<close>

datatype POICategory = CatAll | Landmarks | Food | Art | History | Culture

text \<open>The string a category value is at run time (what a template literal prints).\<close>

fun categoryString :: "POICategory \<Rightarrow> string" where
  "categoryString CatAll = ''all''"
| "categoryString Landmarks = ''landmarks''"
| "categoryString Food = ''food''"
| "categoryString Art = ''art''"
| "categoryString History = ''history''"
| "categoryString Culture = ''culture''"

type_synonym LngLat = "rat \<times> rat"

text \<open>Interface \<^verbatim>\<open>POI\<close>; the field \<^verbatim>\<open>id\<close> is named \<open>poi_id\<close> here.\<close>

record POI =
  poi_id :: string
  name :: string
  category :: POICategory
  coordinates :: LngLat
  description :: string

definition PARIS_POIS :: "POI list" where
  "PARIS_POIS =
    [ \<lparr>poi_id = ''1'', name = ''Eiffel Tower'', category = Landmarks,
        coordinates = (2.2945, 48.8584),
        description = ''Iconic iron lattice tower and symbol of Paris''\<rparr>,
      \<lparr>poi_id = ''2'', name = ''Louvre Museum'', category = Art,
        coordinates = (2.3376, 48.8606),
        description = ''World's largest art museum and historic monument''\<rparr>,
      \<lparr>poi_id = ''3'', name = ''Notre-Dame Cathedral'', category = History,
        coordinates = (2.3499, 48.8530),
        description = ''Medieval Catholic cathedral and Gothic architecture masterpiece''\<rparr>,
      \<lparr>poi_id = ''4'',
        name = ''Sacr'' @ [CHR 0xC3, CHR 0xA9] @ ''-C'' @ [CHR 0xC5, CHR 0x93] @ ''ur Basilica'',
        category = Culture,
        coordinates = (2.3431, 48.8867),
        description = ''Roman Catholic church and minor basilica in Montmartre''\<rparr>,
      \<lparr>poi_id = ''5'', name = ''Le Comptoir du Relais'', category = Food,
        coordinates = (2.3387, 48.8532),
        description = ''Traditional French bistro in Saint-Germain''\<rparr>,
      \<lparr>poi_id = ''6'', name = ''Arc de Triomphe'', category = Landmarks,
        coordinates = (2.2950, 48.8738),
        description = ''Monumental arch honoring fallen French soldiers''\<rparr>,
      \<lparr>poi_id = ''7'', name = ''Mus'' @ [CHR 0xC3, CHR 0xA9] @ ''e d'Orsay'', category = Art,
        coordinates = (2.3266, 48.8600),
        description = ''Museum housing world's finest collection of Impressionist art''\<rparr>,
      \<lparr>poi_id = ''8'', name = ''L'As du Fallafel'', category = Food,
        coordinates = (2.3590, 48.8575),
        description = ''Famous falafel restaurant in the Marais district''\<rparr> ]"

record CategoryEntry =
  cat_id :: POICategory
  label :: string
  icon :: string

definition CATEGORIES :: "CategoryEntry list" where
  "CATEGORIES =
    [ \<lparr>cat_id = CatAll, label = ''All'',
        icon = [CHR 0xF0, CHR 0x9F, CHR 0x97, CHR 0xBA, CHR 0xEF, CHR 0xB8, CHR 0x8F]\<rparr>,
      \<lparr>cat_id = Landmarks, label = ''Landmarks'',
        icon = [CHR 0xF0, CHR 0x9F, CHR 0x8F, CHR 0x9B, CHR 0xEF, CHR 0xB8, CHR 0x8F]\<rparr>,
      \<lparr>cat_id = Food, label = ''Food'',
        icon = [CHR 0xF0, CHR 0x9F, CHR 0x8D, CHR 0xBD, CHR 0xEF, CHR 0xB8, CHR 0x8F]\<rparr>,
      \<lparr>cat_id = Art, label = ''Art'',
        icon = [CHR 0xF0, CHR 0x9F, CHR 0x8E, CHR 0xA8]\<rparr>,
      \<lparr>cat_id = History, label = ''History'',
        icon = [CHR 0xE2, CHR 0x9B, CHR 0xAA]\<rparr>,
      \<lparr>cat_id = Culture, label = ''Culture'',
        icon = [CHR 0xF0, CHR 0x9F, CHR 0x8E, CHR 0xAD]\<rparr> ]"

section \<open>The widget objects the component creates\<close>

text \<open>
  A popup object: its pixel offset, its HTML, the coordinates it is anchored at (none
  until \<^verbatim>\<open>setLngLat\<close>) and \<open>popup_owner\<close>, the identity of the object (every
  marker gets one popup of its own, numbered like the marker).
\<close>

record Popup =
  popup_owner :: nat
  popup_offset :: nat
  popup_html :: string
  popup_lngLat :: "LngLat option"

text \<open>
  The element built by \<^verbatim>\<open>createMarkerElement\<close>: class name, the one part of the
  inline style that varies (the background colour) and the inner HTML. The hover
  listeners only change the element's own transform and are left out.
\<close>

record MarkerElement =
  className :: string
  backgroundColor :: string
  innerHTML :: string

text \<open>
  A marker handle. \<open>handle\<close> is the identity of the object (objects are compared by
  reference in JavaScript). The click listener that \<^verbatim>\<open>addMarkers\<close> attaches to the
  element closes over the popup and over \<^verbatim>\<open>poi.coordinates\<close>: these are
  \<open>clickPopup\<close> and \<open>clickLngLat\<close>.
\<close>

record Marker =
  handle :: nat
  element :: MarkerElement
  lngLat :: LngLat
  clickPopup :: Popup
  clickLngLat :: LngLat

text \<open>A map instance: the markers and the popups that are attached to it.\<close>

record MapInstance =
  mapMarkers :: "Marker list"
  mapPopups :: "Popup list"

definition newMap :: MapInstance where
  "newMap = \<lparr>mapMarkers = [], mapPopups = []\<rparr>"

text \<open>\<^verbatim>\<open>marker.addTo(map)\<close> and \<^verbatim>\<open>marker.remove()\<close>, seen from the map.\<close>

definition markerAddTo :: "Marker \<Rightarrow> MapInstance \<Rightarrow> MapInstance" where
  "markerAddTo mk m = m\<lparr>mapMarkers := mapMarkers m @ [mk]\<rparr>"

definition markerRemove :: "Marker \<Rightarrow> MapInstance \<Rightarrow> MapInstance" where
  "markerRemove mk m = m\<lparr>mapMarkers := filter (\<lambda>k. handle k \<noteq> handle mk) (mapMarkers m)\<rparr>"

text \<open>
  \<^verbatim>\<open>popup.setLngLat(c).addTo(map)\<close>: a popup that is already open on the map is
  taken off first, then it is put on the map at its new anchor.
\<close>

definition popupAddTo :: "Popup \<Rightarrow> MapInstance \<Rightarrow> MapInstance" where
  "popupAddTo p m =
     m\<lparr>mapPopups := filter (\<lambda>q. popup_owner q \<noteq> popup_owner p) (mapPopups m) @ [p]\<rparr>"

section \<open>Component state\<close>

text \<open>
  The three refs and the three state variables of \<^verbatim>\<open>CityMap\<close>, followed by the
  bookkeeping of the environment: the next fresh object identity, how many maps were
  constructed and how many were removed, whether the initialisation effect has
  returned its cleanup function, and whether the component is mounted.
\<close>

record CityMap =
  mapRef :: "MapInstance option"
  containerRef :: bool
  markersRef :: "Marker list"
  mapError :: "string option"
  isLoading :: bool
  selectedCategory :: POICategory
  nextHandle :: nat
  mapsConstructed :: nat
  mapsRemoved :: nat
  cleanupPending :: bool
  mounted :: bool

section \<open>Marker styling\<close>

text \<open>
  \<^verbatim>\<open>colors[category] || colors.all\<close>: the table lookup, with the fallback to the
  entry of \<^verbatim>\<open>all\<close> for a missing key and for a falsy (empty) string.
\<close>

definition colors :: "(POICategory \<times> string) list" where
  "colors =
    [ (Landmarks, ''#FF6B6B''), (Food, ''#4ECDC4''), (Art, ''#45B7D1''),
      (History, ''#96CEB4''), (Culture, ''#FECA57''), (CatAll, ''#6C5CE7'') ]"

definition icons :: "(POICategory \<times> string) list" where
  "icons =
    [ (Landmarks, [CHR 0xF0, CHR 0x9F, CHR 0x8F, CHR 0x9B, CHR 0xEF, CHR 0xB8, CHR 0x8F]),
      (Food, [CHR 0xF0, CHR 0x9F, CHR 0x8D, CHR 0xBD, CHR 0xEF, CHR 0xB8, CHR 0x8F]),
      (Art, [CHR 0xF0, CHR 0x9F, CHR 0x8E, CHR 0xA8]),
      (History, [CHR 0xE2, CHR 0x9B, CHR 0xAA]),
      (Culture, [CHR 0xF0, CHR 0x9F, CHR 0x8E, CHR 0xAD]),
      (CatAll, [CHR 0xF0, CHR 0x9F, CHR 0x93, CHR 0x8D]) ]"

definition lookupOr :: "(POICategory \<times> string) list \<Rightarrow> POICategory \<Rightarrow> string \<Rightarrow> string" where
  "lookupOr table c fallback =
     (case map_of table c of
        Some v \<Rightarrow> if v \<noteq> [] then v else fallback
      | None \<Rightarrow> fallback)"

definition getCategoryColor :: "POICategory \<Rightarrow> string" where
  "getCategoryColor c = lookupOr colors c ''#6C5CE7''"

definition getCategoryIcon :: "POICategory \<Rightarrow> string" where
  "getCategoryIcon c = lookupOr icons c [CHR 0xF0, CHR 0x9F, CHR 0x93, CHR 0x8D]"

definition createMarkerElement :: "POI \<Rightarrow> MarkerElement" where
  "createMarkerElement poi =
     \<lparr>className = ''custom-marker'',
      backgroundColor = getCategoryColor (category poi),
      innerHTML = getCategoryIcon (category poi)\<rparr>"

section \<open>The marker rebuild\<close>

text \<open>The template literal passed to \<^verbatim>\<open>setHTML\<close>, with its line breaks and indentation.\<close>

definition popupHTML :: "POI \<Rightarrow> string" where
  \<open>popupHTML poi =
     [CHR 0x0A] @ ''          <div class="p-3">'' @
     [CHR 0x0A] @ ''            <h3 class="font-bold text-lg mb-1">'' @ name poi @ ''</h3>'' @
     [CHR 0x0A] @ ''            <p class="text-sm text-gray-600 mb-2">'' @ description poi @ ''</p>'' @
     [CHR 0x0A] @ ''            <span class="inline-block px-2 py-1 text-xs font-medium bg-blue-100 text-blue-800 rounded-full">'' @
     [CHR 0x0A] @ ''              '' @ categoryString (category poi) @
     [CHR 0x0A] @ ''            </span>'' @
     [CHR 0x0A] @ ''          </div>'' @
     [CHR 0x0A] @ ''        ''\<close>

text \<open>
  What one round of the \<^verbatim>\<open>forEach\<close> over the filtered POIs creates for \<open>poi\<close>,
  as the object with identity \<open>h\<close>.
\<close>

definition markerFor :: "nat \<Rightarrow> POI \<Rightarrow> Marker" where
  "markerFor h poi =
     \<lparr>handle = h,
      element = createMarkerElement poi,
      lngLat = coordinates poi,
      clickPopup = \<lparr>popup_owner = h, popup_offset = 25, popup_html = popupHTML poi,
                    popup_lngLat = None\<rparr>,
      clickLngLat = coordinates poi\<rparr>"

text \<open>
  The loop state of the second \<^verbatim>\<open>forEach\<close>: the map (\<^verbatim>\<open>mapRef.current\<close>, which
  the guard has found present), the array \<^verbatim>\<open>markersRef.current\<close> and the next
  object identity.
\<close>

fun createMarker :: "MapInstance \<times> Marker list \<times> nat \<Rightarrow> POI \<Rightarrow> MapInstance \<times> Marker list \<times> nat" where
  "createMarker (m, held, h) poi =
     (let marker = markerFor h poi
      in (markerAddTo marker m, held @ [marker], Suc h))"

definition filteredPOIs :: "POICategory \<Rightarrow> POI list" where
  "filteredPOIs sel =
     (if sel = CatAll then PARIS_POIS
      else filter (\<lambda>poi. category poi = sel) PARIS_POIS)"

text \<open>
  \<^verbatim>\<open>addMarkers\<close>. The function reads \<^verbatim>\<open>selectedCategory\<close> from the render it
  was created in, so the category is a parameter here.
\<close>

definition addMarkers :: "POICategory \<Rightarrow> CityMap \<Rightarrow> CityMap" where
  "addMarkers sel s =
     (case mapRef s of
        None \<Rightarrow> s
      | Some m \<Rightarrow>
          (let cleared = foldl (\<lambda>m' marker. markerRemove marker m') m (markersRef s);
               (m2, held, h) = foldl createMarker (cleared, [], nextHandle s) (filteredPOIs sel)
           in s\<lparr>mapRef := Some m2, markersRef := held, nextHandle := h\<rparr>))"

section \<open>Effects, handlers and rendering\<close>

text \<open>
  The effect with dependencies \<^verbatim>\<open>[selectedCategory, isLoading]\<close>. It calls the
  \<^verbatim>\<open>addMarkers\<close> of the current render, which sees the current selection.
\<close>

definition markerEffect :: "CityMap \<Rightarrow> CityMap" where
  "markerEffect s =
     (if mapRef s \<noteq> None \<and> \<not> isLoading s then addMarkers (selectedCategory s) s else s)"

text \<open>
  The body of the initialisation effect (dependencies \<^verbatim>\<open>[]\<close>). \<open>ok\<close> says
  whether \<^verbatim>\<open>new maplibregl.Map\<close> returns; when it throws, the assignment to
  \<^verbatim>\<open>mapRef.current\<close> does not happen and the \<^verbatim>\<open>catch\<close> block runs. The early
  \<^verbatim>\<open>return\<close> of the guard returns no cleanup function; every other path does.
\<close>

definition initEffect :: "bool \<Rightarrow> CityMap \<Rightarrow> CityMap" where
  "initEffect ok s =
     (if \<not> containerRef s \<or> mapRef s \<noteq> None then s
      else if ok then
        s\<lparr>mapRef := Some newMap, mapsConstructed := Suc (mapsConstructed s),
          cleanupPending := True\<rparr>
      else
        s\<lparr>mapError := Some ''Failed to initialize map'', isLoading := False,
          cleanupPending := True\<rparr>)"

text \<open>
  The cleanup function returned by the initialisation effect, in its two steps:
  remove every held marker and empty the array; then, if there is a map, remove it
  and clear the ref.
\<close>

definition cleanupMarkers :: "CityMap \<Rightarrow> CityMap" where
  "cleanupMarkers s =
     s\<lparr>mapRef := map_option (\<lambda>m. foldl (\<lambda>m' marker. markerRemove marker m') m (markersRef s))
                  (mapRef s),
       markersRef := []\<rparr>"

definition releaseMap :: "CityMap \<Rightarrow> CityMap" where
  "releaseMap s =
     (case mapRef s of
        None \<Rightarrow> s
      | Some m \<Rightarrow> s\<lparr>mapRef := None, mapsRemoved := Suc (mapsRemoved s)\<rparr>)"

definition cleanup :: "CityMap \<Rightarrow> CityMap" where
  "cleanup s = releaseMap (cleanupMarkers s)"

text \<open>
  The two listeners registered on the map. The \<^verbatim>\<open>load\<close> listener is created by
  the initialisation effect of the first render, so the \<^verbatim>\<open>addMarkers\<close> it calls is
  the one of that render, where \<^verbatim>\<open>selectedCategory\<close> has its initial value
  \<^verbatim>\<open>'all'\<close>. State setters take effect at the next render; the refs change at once.
\<close>

definition onLoad :: "CityMap \<Rightarrow> CityMap" where
  "onLoad s = addMarkers CatAll (s\<lparr>isLoading := False\<rparr>)"

definition onError :: "CityMap \<Rightarrow> CityMap" where
  "onError s = s\<lparr>mapError := Some ''Failed to load map'', isLoading := False\<rparr>"

text \<open>
  The click listener of a marker's element:
  \<^verbatim>\<open>popup.setLngLat(poi.coordinates).addTo(mapRef.current!)\<close>. The non-null
  assertion is erased at run time; with no map the widget dereferences \<^verbatim>\<open>null\<close>.
\<close>

datatype error = TypeError

definition onClick :: "Marker \<Rightarrow> CityMap \<Rightarrow> error + CityMap" where
  "onClick marker s =
     (case mapRef s of
        None \<Rightarrow> Inl TypeError
      | Some m \<Rightarrow>
          Inr (s\<lparr>mapRef :=
                   Some (popupAddTo ((clickPopup marker)\<lparr>popup_lngLat := Some (clickLngLat marker)\<rparr>) m)\<rparr>))"

text \<open>\<^verbatim>\<open>if (mapError)\<close>: a string is truthy when it is not empty.\<close>

definition showsError :: "CityMap \<Rightarrow> bool" where
  "showsError s = (case mapError s of None \<Rightarrow> False | Some msg \<Rightarrow> msg \<noteq> [])"

text \<open>
  The filter chips. The badge is the number given to React to print; it is present
  only on the selected chip.
\<close>

record Chip =
  chip_id :: POICategory
  chip_icon :: string
  chip_label :: string
  chip_selected :: bool
  chip_badge :: "nat option"

definition filterBar :: "POICategory \<Rightarrow> Chip list" where
  "filterBar sel =
     map (\<lambda>c. \<lparr>chip_id = cat_id c, chip_icon = icon c, chip_label = label c,
               chip_selected = (sel = cat_id c),
               chip_badge =
                 (if sel = cat_id c then
                    Some (if sel = CatAll then length PARIS_POIS
                          else length (filter (\<lambda>poi. category poi = cat_id c) PARIS_POIS))
                  else None)\<rparr>)
         CATEGORIES"

text \<open>
  What the component returns: the error panel with the message, or the map view with
  the loading overlay (shown or not) and the filter bar.
\<close>

datatype View = ErrorPanel string | MapView bool "Chip list"

definition render :: "CityMap \<Rightarrow> View" where
  "render s =
     (case mapError s of
        Some msg \<Rightarrow> if msg \<noteq> [] then ErrorPanel msg
                    else MapView (isLoading s) (filterBar (selectedCategory s))
      | None \<Rightarrow> MapView (isLoading s) (filterBar (selectedCategory s)))"

text \<open>The three states of the map host, as the render distinguishes them.\<close>

datatype HostState = Initializing | Loaded | Error

definition hostState :: "CityMap \<Rightarrow> HostState" where
  "hostState s = (if showsError s then Error else if isLoading s then Initializing else Loaded)"

section \<open>Events\<close>

text \<open>
  React renders again when a state variable has changed (\<open>old\<close> is the state of the
  last render). The container ref follows the rendered tree: the error panel has no
  container element. After the render the marker effect runs if one of its
  dependencies has changed.
\<close>

definition rerender :: "CityMap \<Rightarrow> CityMap \<Rightarrow> CityMap" where
  "rerender old s =
     (if mapError old = mapError s \<and> isLoading old = isLoading s
         \<and> selectedCategory old = selectedCategory s then s
      else
        (let s1 = s\<lparr>containerRef := \<not> showsError s\<rparr>
         in if selectedCategory old = selectedCategory s1 \<and> isLoading old = isLoading s1
            then s1 else markerEffect s1))"

text \<open>
  Mounting creates a fresh component instance (refs and state at their initial
  values), renders it, and runs both effects in the order of their declaration.
\<close>

definition mount :: "bool \<Rightarrow> CityMap \<Rightarrow> CityMap" where
  "mount ok s =
     (let s0 = s\<lparr>mapRef := None, containerRef := True, markersRef := [], mapError := None,
                isLoading := True, selectedCategory := CatAll, cleanupPending := False,
                mounted := True\<rparr>;
          s1 = markerEffect s0
      in rerender s1 (initEffect ok s1))"

definition unmount :: "CityMap \<Rightarrow> CityMap" where
  "unmount s = (if cleanupPending s then cleanup s else s)\<lparr>cleanupPending := False, mounted := False\<rparr>"

datatype Event =
    Mount bool
  | MapLoad
  | MapErrorEvent
  | SelectCategory POICategory
  | ClickMarker nat
  | Unmount

text \<open>
  One event. An event that cannot reach the component in the given state leaves the
  state as it is: map events need a live map, a chip can be clicked only when the
  filter bar is rendered, a marker only when it is on the map and the map is shown.
\<close>

fun step :: "Event \<Rightarrow> CityMap \<Rightarrow> CityMap" where
  "step (Mount ok) s = (if mounted s then s else mount ok s)"
| "step MapLoad s =
     (if mounted s \<and> mapRef s \<noteq> None then rerender s (onLoad s) else s)"
| "step MapErrorEvent s =
     (if mounted s \<and> mapRef s \<noteq> None then rerender s (onError s) else s)"
| "step (SelectCategory c) s =
     (if mounted s \<and> \<not> showsError s then rerender s (s\<lparr>selectedCategory := c\<rparr>) else s)"
| "step (ClickMarker i) s =
     (case mapRef s of
        None \<Rightarrow> s
      | Some m \<Rightarrow>
          if mounted s \<and> \<not> showsError s \<and> i < length (mapMarkers m) then
            (case onClick (mapMarkers m ! i) s of Inl e \<Rightarrow> s | Inr s' \<Rightarrow> s')
          else s)"
| "step Unmount s = (if mounted s then unmount s else s)"

definition run :: "Event list \<Rightarrow> CityMap \<Rightarrow> CityMap" where
  "run evs s = foldl (\<lambda>s' e. step e s') s evs"

text \<open>Before the first mount.\<close>

definition start :: CityMap where
  "start =
     \<lparr>mapRef = None, containerRef = False, markersRef = [], mapError = None,
      isLoading = True, selectedCategory = CatAll, nextHandle = 0, mapsConstructed = 0,
      mapsRemoved = 0, cleanupPending = False, mounted = False\<rparr>"

section \<open>Auxiliary notions for the proofs\<close>

text \<open>
  The markers one rebuild creates for a list of POIs, when the next free object
  identity is \<open>h\<close>: the closed form of the loop over \<open>createMarker\<close>.
\<close>

fun markersFrom :: "nat \<Rightarrow> POI list \<Rightarrow> Marker list" where
  "markersFrom h [] = []"
| "markersFrom h (poi # pois) = markerFor h poi # markersFrom (Suc h) pois"

text \<open>Every marker that is on the map is one of the handles the component holds.\<close>

definition onMapHeld :: "CityMap \<Rightarrow> bool" where
  "onMapHeld s =
     (case mapRef s of
        None \<Rightarrow> True
      | Some m \<Rightarrow> list_all (\<lambda>k. handle k \<in> set (map handle (markersRef s))) (mapMarkers m))"

text \<open>The number of map instances that were constructed and not yet removed.\<close>

definition liveMaps :: "CityMap \<Rightarrow> int" where
  "liveMaps s = int (mapsConstructed s) - int (mapsRemoved s)"

text \<open>
  The invariant of the component: the only live map is the one in \<^verbatim>\<open>mapRef\<close>;
  without a map no marker is held; a mounted component has its cleanup registered; an
  unmounted one has no map; the map shows no marker that is not held.
\<close>

definition consistent :: "CityMap \<Rightarrow> bool" where
  "consistent s \<longleftrightarrow>
     liveMaps s = (if mapRef s = None then 0 else 1)
   \<and> (mapRef s = None \<longrightarrow> markersRef s = [])
   \<and> (mounted s \<longrightarrow> cleanupPending s)
   \<and> (\<not> mounted s \<longrightarrow> mapRef s = None)
   \<and> onMapHeld s"

text \<open>
  While \<^verbatim>\<open>isLoading\<close> is true no marker is held and none is on the map.
\<close>

definition loadingQuiet :: "CityMap \<Rightarrow> bool" where
  "loadingQuiet s \<longleftrightarrow>
     (if isLoading s
      then markersRef s = [] \<and> (case mapRef s of None \<Rightarrow> True | Some m \<Rightarrow> mapMarkers m = [])
      else True)"

section \<open>The two loops of the rebuild\<close>

lemma foldl_createMarker:
  "foldl createMarker (m, held, h) pois =
     (m\<lparr>mapMarkers := mapMarkers m @ markersFrom h pois\<rparr>, held @ markersFrom h pois, h + length pois)"
  by (induction pois arbitrary: m held h) (simp_all add: markerAddTo_def Let_def)

lemma foldl_markerRemove:
  "foldl (\<lambda>m' marker. markerRemove marker m') m ms =
     m\<lparr>mapMarkers := filter (\<lambda>k. handle k \<notin> handle ` set ms) (mapMarkers m)\<rparr>"
proof (induction ms arbitrary: m)
  case Nil
  show ?case by simp
next
  case (Cons a ms)
  have "filter (\<lambda>k. handle k \<notin> handle ` set ms) (filter (\<lambda>k. handle k \<noteq> handle a) (mapMarkers m)) =
        filter (\<lambda>k. handle k \<notin> handle ` set (a # ms)) (mapMarkers m)"
    by (auto intro: filter_cong)
  with Cons show ?case by (simp add: markerRemove_def)
qed

lemma addMarkers_None: "mapRef s = None \<Longrightarrow> addMarkers f s = s"
  by (simp add: addMarkers_def)

lemma addMarkers_Some:
  "mapRef s = Some m \<Longrightarrow>
   addMarkers f s =
     s\<lparr>mapRef := Some (m\<lparr>mapMarkers := filter (\<lambda>k. handle k \<notin> handle ` set (markersRef s)) (mapMarkers m)
                                    @ markersFrom (nextHandle s) (filteredPOIs f)\<rparr>),
       markersRef := markersFrom (nextHandle s) (filteredPOIs f),
       nextHandle := nextHandle s + length (filteredPOIs f)\<rparr>"
  by (simp add: addMarkers_def foldl_createMarker foldl_markerRemove)

lemma length_markersFrom [simp]: "length (markersFrom h pois) = length pois"
  by (induction pois arbitrary: h) simp_all

lemma markersFrom_map2:
  "markersFrom h pois = map2 markerFor [h..<h + length pois] pois"
proof (induction pois arbitrary: h)
  case Nil
  show ?case by simp
next
  case (Cons p ps)
  have "[h..<h + length (p # ps)] = h # [Suc h..<Suc h + length ps]"
    by (simp add: upt_rec)
  with Cons show ?case by simp
qed

lemma handles_markersFrom: "map handle (markersFrom h pois) = [h..<h + length pois]"
proof (induction pois arbitrary: h)
  case Nil
  show ?case by simp
next
  case (Cons p ps)
  have "[h..<h + length (p # ps)] = h # [Suc h..<Suc h + length ps]"
    by (simp add: upt_rec)
  with Cons show ?case by (simp add: markerFor_def)
qed

lemma lngLat_markersFrom: "map lngLat (markersFrom h pois) = map coordinates pois"
  by (induction pois arbitrary: h) (simp_all add: markerFor_def)

lemma element_markersFrom: "map element (markersFrom h pois) = map createMarkerElement pois"
  by (induction pois arbitrary: h) (simp_all add: markerFor_def)

lemma markersFrom_nth:
  "i < length pois \<Longrightarrow> markersFrom h pois ! i = markerFor (h + i) (pois ! i)"
proof (induction pois arbitrary: h i)
  case Nil
  then show ?case by simp
next
  case (Cons p ps)
  then show ?case by (cases i) simp_all
qed

lemma markersRef_addMarkers:
  "mapRef s \<noteq> None \<Longrightarrow> markersRef (addMarkers f s) = markersFrom (nextHandle s) (filteredPOIs f)"
  by (auto simp: addMarkers_Some)


lemma mapRef_addMarkers_None [simp]: "mapRef (addMarkers f s) = None \<longleftrightarrow> mapRef s = None"
  by (cases "mapRef s") (simp_all add: addMarkers_None addMarkers_Some)

lemma addMarkers_frame:
  "mapsConstructed (addMarkers f s) = mapsConstructed s"
  "mapsRemoved (addMarkers f s) = mapsRemoved s"
  "mounted (addMarkers f s) = mounted s"
  "cleanupPending (addMarkers f s) = cleanupPending s"
  "isLoading (addMarkers f s) = isLoading s"
  "mapError (addMarkers f s) = mapError s"
  "selectedCategory (addMarkers f s) = selectedCategory s"
  "containerRef (addMarkers f s) = containerRef s"
  by (cases "mapRef s"; simp add: addMarkers_None addMarkers_Some)+

section \<open>The POI store\<close>


lemma distinct_ids: "distinct (map poi_id PARIS_POIS)"
  by (simp add: PARIS_POIS_def)

lemma filteredPOIs_subset: "set (filteredPOIs f) \<subseteq> set PARIS_POIS"
  by (auto simp: filteredPOIs_def)

lemma distinct_filteredPOIs_ids: "distinct (map poi_id (filteredPOIs f))"
  using distinct_ids by (simp add: filteredPOIs_def distinct_map_filter)

lemma length_filteredPOIs_CatAll: "length (filteredPOIs CatAll) = 8"
  by (simp add: filteredPOIs_def PARIS_POIS_def)

lemma filteredPOIs_Food:
  "filteredPOIs Food = filter (\<lambda>poi. poi_id poi = ''5'' \<or> poi_id poi = ''8'') PARIS_POIS"
  by (simp add: filteredPOIs_def PARIS_POIS_def)

lemma first_visible:
  "0 < length (filteredPOIs CatAll)" "poi_id (filteredPOIs CatAll ! 0) = ''1''"
  "coordinates (filteredPOIs CatAll ! 0) = (2.2945, 48.8584)"
  by (simp_all add: filteredPOIs_def PARIS_POIS_def)


lemma poi_1:
  "poi \<in> set PARIS_POIS \<Longrightarrow> poi_id poi = ''1'' \<Longrightarrow>
   name poi = ''Eiffel Tower'' \<and> categoryString (category poi) = ''landmarks''"
  by (auto simp: PARIS_POIS_def)



section \<open>The popup text\<close>

lemma popupHTML_name: "sublist (name poi) (popupHTML poi)"
  unfolding popupHTML_def sublist_def by (metis append.assoc)

lemma popupHTML_description: "sublist (description poi) (popupHTML poi)"
  unfolding popupHTML_def sublist_def by (metis append.assoc)

lemma popupHTML_category: "sublist (categoryString (category poi)) (popupHTML poi)"
  unfolding popupHTML_def sublist_def by (metis append.assoc)

section \<open>The invariant holds in every reachable state\<close>

lemma filter_held_empty:
  assumes "onMapHeld s" "mapRef s = Some m"
  shows "filter (\<lambda>k. handle k \<notin> handle ` set (markersRef s)) (mapMarkers m) = []"
  using assms by (auto simp: onMapHeld_def list_all_iff filter_empty_conv)

lemma mapMarkers_addMarkers:
  assumes "onMapHeld s" "mapRef s = Some m"
  shows "\<exists>m'. mapRef (addMarkers f s) = Some m' \<and> mapMarkers m' = markersRef (addMarkers f s)"
  using assms by (simp add: addMarkers_Some filter_held_empty)

lemma onMapHeld_addMarkers: "onMapHeld s \<Longrightarrow> onMapHeld (addMarkers f s)"
proof (cases "mapRef s")
  case None
  assume "onMapHeld s"
  with None show ?thesis by (simp add: addMarkers_None)
next
  case (Some m)
  assume "onMapHeld s"
  from mapMarkers_addMarkers [OF this Some, of f] show ?thesis
    by (auto simp: onMapHeld_def list_all_iff)
qed

lemma mapMarkers_addMarkers_any:
  assumes "mapRef s = Some m"
  shows "map_option mapMarkers (mapRef (addMarkers f s)) =
           Some (filter (\<lambda>k. handle k \<notin> handle ` set (markersRef s)) (mapMarkers m)
                 @ markersRef (addMarkers f s))"
  using assms by (simp add: addMarkers_Some)

lemma mapMarkers_addMarkers_held:
  assumes "mapRef s = Some m" "onMapHeld s"
  shows "map_option mapMarkers (mapRef (addMarkers f s)) = Some (markersRef (addMarkers f s))"
  using assms by (simp add: addMarkers_Some filter_held_empty)

lemma consistent_start: "consistent start"
  by (simp add: consistent_def start_def liveMaps_def onMapHeld_def)

lemma consistent_addMarkers: "consistent s \<Longrightarrow> consistent (addMarkers f s)"
  by (cases "mapRef s")
     (auto simp: consistent_def liveMaps_def addMarkers_frame addMarkers_None onMapHeld_addMarkers)

lemma consistent_markerEffect: "consistent s \<Longrightarrow> consistent (markerEffect s)"
  by (simp add: markerEffect_def consistent_addMarkers)

lemma consistent_view_update:
  "consistent s \<Longrightarrow>
   consistent (s\<lparr>mapError := e, isLoading := l\<rparr>) \<and> consistent (s\<lparr>isLoading := l\<rparr>)
   \<and> consistent (s\<lparr>selectedCategory := c\<rparr>) \<and> consistent (s\<lparr>containerRef := b\<rparr>)"
  by (cases "mapRef s") (simp_all add: consistent_def liveMaps_def onMapHeld_def)

lemma consistent_rerender: "consistent s \<Longrightarrow> consistent (rerender old s)"
  by (simp add: rerender_def Let_def consistent_markerEffect consistent_view_update)

lemma consistent_mount:
  assumes "consistent s" "\<not> mounted s"
  shows "consistent (mount ok s)"
proof -
  let ?s0 = "s\<lparr>mapRef := None, containerRef := True, markersRef := [], mapError := None,
                isLoading := True, selectedCategory := CatAll, cleanupPending := False,
                mounted := True\<rparr>"
  have eff: "markerEffect ?s0 = ?s0" by (simp add: markerEffect_def)
  from assms have "consistent (initEffect ok ?s0)"
    by (auto simp: initEffect_def consistent_def liveMaps_def onMapHeld_def newMap_def)
  then show ?thesis
    unfolding mount_def Let_def eff by (rule consistent_rerender)
qed

lemma cleanup_result:
  "markersRef (cleanup s) = []" "mapRef (cleanup s) = None"
  "mapsConstructed (cleanup s) = mapsConstructed s"
  "mapsRemoved (cleanup s) = mapsRemoved s + (if mapRef s = None then 0 else 1)"
  by (cases "mapRef s"; simp add: cleanup_def cleanupMarkers_def releaseMap_def)+

lemma cleanupMarkers_detached:
  assumes "mapRef (cleanupMarkers s) = Some m" "mk \<in> set (markersRef s)"
  shows "handle mk \<notin> handle ` set (mapMarkers m)"
proof
  assume "handle mk \<in> handle ` set (mapMarkers m)"
  then obtain x where x: "x \<in> set (mapMarkers m)" "handle x = handle mk" by auto
  from assms(1) obtain z where
    "m = z\<lparr>mapMarkers := filter (\<lambda>k. handle k \<notin> handle ` set (markersRef s)) (mapMarkers z)\<rparr>"
    by (auto simp: cleanupMarkers_def foldl_markerRemove)
  with x(1) have "handle x \<notin> handle ` set (markersRef s)" by simp
  with x(2) assms(2) show False by (metis imageI)
qed

lemma consistent_unmount:
  assumes "consistent s" "mounted s"
  shows "consistent (unmount s)"
  using assms
  by (auto simp: unmount_def consistent_def liveMaps_def onMapHeld_def cleanup_result)

lemma consistent_onClick:
  "consistent s \<Longrightarrow> onClick mk s = Inr s' \<Longrightarrow> consistent s'"
  by (auto simp: onClick_def consistent_def liveMaps_def onMapHeld_def popupAddTo_def
           split: option.splits)

lemma consistent_step: "consistent s \<Longrightarrow> consistent (step e s)"
proof (cases e)
  case (Mount ok)
  assume "consistent s"
  with Mount show ?thesis by (simp add: consistent_mount)
next
  case MapLoad
  assume "consistent s"
  then have "consistent (onLoad s)"
    unfolding onLoad_def by (blast intro: consistent_addMarkers dest: consistent_view_update)
  with MapLoad \<open>consistent s\<close> show ?thesis by (simp add: consistent_rerender)
next
  case MapErrorEvent
  assume "consistent s"
  then have "consistent (onError s)"
    unfolding onError_def by (blast dest: consistent_view_update)
  with MapErrorEvent \<open>consistent s\<close> show ?thesis by (simp add: consistent_rerender)
next
  case (SelectCategory c)
  assume "consistent s"
  then have "consistent (s\<lparr>selectedCategory := c\<rparr>)"
    by (blast dest: consistent_view_update)
  with SelectCategory \<open>consistent s\<close> show ?thesis by (simp add: consistent_rerender)
next
  case (ClickMarker i)
  assume "consistent s"
  with ClickMarker show ?thesis
    by (auto split: option.splits sum.splits dest: consistent_onClick)
next
  case Unmount
  assume "consistent s"
  with Unmount show ?thesis by (simp add: consistent_unmount)
qed

lemma consistent_run: "consistent s \<Longrightarrow> consistent (run evs s)"
  unfolding run_def by (induction evs arbitrary: s) (simp_all add: consistent_step)

lemma consistent_reachable: "consistent (run evs start)"
  by (rule consistent_run [OF consistent_start])

lemma reachable_onMapHeld: "onMapHeld (run evs start)"
  using consistent_reachable [of evs] by (simp add: consistent_def)

lemma unmount_reachable:
  assumes "consistent s"
  shows "markersRef (step Unmount s) = [] \<and> mapRef (step Unmount s) = None
         \<and> liveMaps (step Unmount s) = 0 \<and> \<not> mounted (step Unmount s)"
proof (cases "mounted s")
  case True
  with assms have "cleanupPending s" by (simp add: consistent_def)
  with True assms show ?thesis
    by (auto simp: unmount_def cleanup_result liveMaps_def consistent_def)
next
  case False
  with assms show ?thesis by (auto simp: consistent_def)
qed

lemma live_initEffect:
  assumes "liveMaps s = (if mapRef s = None then 0 else 1)"
  shows "liveMaps (initEffect ok s) = (if mapRef (initEffect ok s) = None then 0 else 1)"
  using assms by (auto simp: initEffect_def liveMaps_def)

lemma live_initEffect_fold:
  assumes "liveMaps s = (if mapRef s = None then 0 else 1)"
  shows "liveMaps (foldl (\<lambda>s' ok. initEffect ok s') s oks) =
         (if mapRef (foldl (\<lambda>s' ok. initEffect ok s') s oks) = None then 0 else 1)"
  using assms by (induction oks arbitrary: s) (simp_all add: live_initEffect)

section \<open>Nothing is built while the map is loading\<close>

lemma loadingQuiet_start: "loadingQuiet start"
  by (simp add: loadingQuiet_def start_def)

lemma loadingQuiet_loaded: "\<not> isLoading s \<Longrightarrow> loadingQuiet s"
  by (simp add: loadingQuiet_def)

lemma loadingQuiet_markerEffect: "loadingQuiet s \<Longrightarrow> loadingQuiet (markerEffect s)"
  by (cases "isLoading s") (simp_all add: markerEffect_def loadingQuiet_loaded addMarkers_frame)

lemma loadingQuiet_view_update:
  "loadingQuiet s \<Longrightarrow>
   loadingQuiet (s\<lparr>selectedCategory := c\<rparr>) \<and> loadingQuiet (s\<lparr>containerRef := b\<rparr>)"
  by (simp add: loadingQuiet_def)

lemma loadingQuiet_rerender: "loadingQuiet s \<Longrightarrow> loadingQuiet (rerender old s)"
  by (simp add: rerender_def Let_def loadingQuiet_markerEffect loadingQuiet_view_update)

lemma loadingQuiet_mount: "loadingQuiet (mount ok s)"
proof -
  let ?s0 = "s\<lparr>mapRef := None, containerRef := True, markersRef := [], mapError := None,
                isLoading := True, selectedCategory := CatAll, cleanupPending := False,
                mounted := True\<rparr>"
  have eff: "markerEffect ?s0 = ?s0" by (simp add: markerEffect_def)
  have "loadingQuiet (initEffect ok ?s0)"
    by (simp add: initEffect_def loadingQuiet_def newMap_def)
  then show ?thesis
    unfolding mount_def Let_def eff by (rule loadingQuiet_rerender)
qed

lemma loadingQuiet_unmount: "loadingQuiet (unmount s) \<or> \<not> cleanupPending s"
  by (simp add: unmount_def loadingQuiet_def cleanup_result)

lemma loadingQuiet_step: "loadingQuiet s \<Longrightarrow> loadingQuiet (step e s)"
proof (cases e)
  case (Mount ok)
  assume "loadingQuiet s"
  with Mount show ?thesis by (simp add: loadingQuiet_mount)
next
  case MapLoad
  have "loadingQuiet (onLoad s)"
    by (rule loadingQuiet_loaded) (simp add: onLoad_def addMarkers_frame)
  moreover assume "loadingQuiet s"
  ultimately show ?thesis using MapLoad by (simp add: loadingQuiet_rerender)
next
  case MapErrorEvent
  have "loadingQuiet (onError s)"
    by (rule loadingQuiet_loaded) (simp add: onError_def)
  moreover assume "loadingQuiet s"
  ultimately show ?thesis using MapErrorEvent by (simp add: loadingQuiet_rerender)
next
  case (SelectCategory c)
  assume "loadingQuiet s"
  then have "loadingQuiet (s\<lparr>selectedCategory := c\<rparr>)"
    by (blast dest: loadingQuiet_view_update)
  with SelectCategory \<open>loadingQuiet s\<close> show ?thesis by (simp add: loadingQuiet_rerender)
next
  case (ClickMarker i)
  assume "loadingQuiet s"
  with ClickMarker show ?thesis
    by (auto simp: loadingQuiet_def onClick_def popupAddTo_def split: option.splits if_splits)
next
  case Unmount
  assume "loadingQuiet s"
  with Unmount show ?thesis
    by (cases "cleanupPending s") (simp_all add: unmount_def loadingQuiet_def cleanup_result)
qed

lemma loadingQuiet_reachable: "loadingQuiet (run evs start)"
proof -
  have "loadingQuiet s \<Longrightarrow> loadingQuiet (run evs s)" for s
    unfolding run_def by (induction evs arbitrary: s) (simp_all add: loadingQuiet_step)
  from this [OF loadingQuiet_start] show ?thesis .
qed

lemma initializing_quiet:
  assumes "hostState (run evs start) = Initializing"
  shows "markersRef (run evs start) = []"
    "map_option mapMarkers (mapRef (run evs start)) \<in> {None, Some []}"
    "markerEffect (run evs start) = run evs start"
    "markersRef (step (SelectCategory c) (run evs start)) = []"
    "mapRef (step (SelectCategory c) (run evs start)) = mapRef (run evs start)"
proof -
  from assms have loading: "isLoading (run evs start)"
    by (simp add: hostState_def split: if_splits)
  with loadingQuiet_reachable [of evs]
  show none: "markersRef (run evs start) = []"
    and "map_option mapMarkers (mapRef (run evs start)) \<in> {None, Some []}"
    by (auto simp: loadingQuiet_def split: option.splits)
  from loading show "markerEffect (run evs start) = run evs start"
    by (simp add: markerEffect_def)
  from loading none show "markersRef (step (SelectCategory c) (run evs start)) = []"
    "mapRef (step (SelectCategory c) (run evs start)) = mapRef (run evs start)"
    by (auto simp: rerender_def markerEffect_def Let_def)
qed

section \<open>Four concrete runs\<close>

text \<open>
  The state after mounting with a map that constructs; after mounting with a
  constructor that throws; after the map has reported an error before loading; and
  after the map has loaded.
\<close>

lemma run_snoc: "run (evs @ [e]) s = step e (run evs s)"
  by (simp add: run_def)

lemma mounted_state:
  "run [Mount True] start =
     \<lparr>mapRef = Some newMap, containerRef = True, markersRef = [], mapError = None,
      isLoading = True, selectedCategory = CatAll, nextHandle = 0, mapsConstructed = 1,
      mapsRemoved = 0, cleanupPending = True, mounted = True\<rparr>"
  by (simp add: run_def start_def mount_def markerEffect_def initEffect_def rerender_def)

lemma failed_state:
  "run [Mount False] start =
     \<lparr>mapRef = None, containerRef = False, markersRef = [],
      mapError = Some ''Failed to initialize map'',
      isLoading = False, selectedCategory = CatAll, nextHandle = 0, mapsConstructed = 0,
      mapsRemoved = 0, cleanupPending = True, mounted = True\<rparr>"
  by (simp add: run_def start_def mount_def markerEffect_def initEffect_def rerender_def
      showsError_def)

lemma error_state:
  "run [Mount True, MapErrorEvent] start =
     \<lparr>mapRef = Some \<lparr>mapMarkers = markersFrom 0 PARIS_POIS, mapPopups = []\<rparr>,
      containerRef = False, markersRef = markersFrom 0 PARIS_POIS,
      mapError = Some ''Failed to load map'',
      isLoading = False, selectedCategory = CatAll, nextHandle = 8, mapsConstructed = 1,
      mapsRemoved = 0, cleanupPending = True, mounted = True\<rparr>"
proof -
  have "run [Mount True, MapErrorEvent] start = step MapErrorEvent (run [Mount True] start)"
    using run_snoc [of "[Mount True]" MapErrorEvent start] by simp
  then show ?thesis
    by (simp add: mounted_state onError_def rerender_def showsError_def markerEffect_def
        addMarkers_Some newMap_def length_filteredPOIs_CatAll)
       (simp add: filteredPOIs_def)
qed

lemma loaded_state:
  "run [Mount True, MapLoad] start =
     \<lparr>mapRef = Some \<lparr>mapMarkers = markersFrom 8 PARIS_POIS, mapPopups = []\<rparr>,
      containerRef = True, markersRef = markersFrom 8 PARIS_POIS,
      mapError = None,
      isLoading = False, selectedCategory = CatAll, nextHandle = 16, mapsConstructed = 1,
      mapsRemoved = 0, cleanupPending = True, mounted = True\<rparr>"
proof -
  have "run [Mount True, MapLoad] start = step MapLoad (run [Mount True] start)"
    using run_snoc [of "[Mount True]" MapLoad start] by simp
  then show ?thesis
    by (simp add: mounted_state onLoad_def rerender_def showsError_def markerEffect_def
        addMarkers_Some newMap_def length_filteredPOIs_CatAll handles_markersFrom
        filter_empty_conv)
       (simp add: filteredPOIs_def)
qed

lemma loaded_present: "mapRef (run [Mount True, MapLoad] start) \<noteq> None"
  by (simp add: loaded_state)

section \<open>The claims\<close>

text \<open>
  Claim C1. For every filter value \<open>f\<close> and every prior state of the markers, when
  \<^verbatim>\<open>addMarkers\<close> returns on an existing map, the number of markers held is the number of
  POIs of category \<open>f\<close>, or the number of all POIs for \<^verbatim>\<open>'all'\<close>. The markers held
  are exactly one new marker per visible POI, in the order of the store: none extra,
  none missing, no object twice and no POI twice. The map shows these markers after
  whatever it showed before that the component did not hold; when it showed held
  markers only (as in every reachable state), it shows exactly the markers held.
\<close>

theorem C1_rebuild_exact:
  assumes "mapRef s = Some m"
  shows "length (markersRef (addMarkers f s)) =
           (if f = CatAll then length PARIS_POIS
            else length (filter (\<lambda>poi. category poi = f) PARIS_POIS))
       \<and> markersRef (addMarkers f s) =
           map2 markerFor [nextHandle s..<nextHandle s + length (filteredPOIs f)] (filteredPOIs f)
       \<and> distinct (map handle (markersRef (addMarkers f s)))
       \<and> distinct (map poi_id (filteredPOIs f))
       \<and> map_option mapMarkers (mapRef (addMarkers f s)) =
           Some (filter (\<lambda>k. handle k \<notin> handle ` set (markersRef s)) (mapMarkers m)
                 @ markersRef (addMarkers f s))
       \<and> (onMapHeld s \<longrightarrow>
            map_option mapMarkers (mapRef (addMarkers f s)) = Some (markersRef (addMarkers f s)))"
proof -
  from assms have present: "mapRef s \<noteq> None" by simp
  have held: "markersRef (addMarkers f s) = markersFrom (nextHandle s) (filteredPOIs f)"
    using present by (rule markersRef_addMarkers)
  have "length (markersRef (addMarkers f s)) = length (filteredPOIs f)"
    by (simp add: held)
  then have count: "length (markersRef (addMarkers f s)) =
           (if f = CatAll then length PARIS_POIS
            else length (filter (\<lambda>poi. category poi = f) PARIS_POIS))"
    by (simp add: filteredPOIs_def)
  have exact: "markersRef (addMarkers f s) =
           map2 markerFor [nextHandle s..<nextHandle s + length (filteredPOIs f)] (filteredPOIs f)"
    unfolding held by (rule markersFrom_map2)
  have handles: "distinct (map handle (markersRef (addMarkers f s)))"
    by (simp add: held handles_markersFrom)
  note onmap = mapMarkers_addMarkers_any [OF assms, of f]
  have exactmap: "onMapHeld s \<longrightarrow>
            map_option mapMarkers (mapRef (addMarkers f s)) = Some (markersRef (addMarkers f s))"
    by (simp add: mapMarkers_addMarkers_held [OF assms])
  from count exact handles distinct_filteredPOIs_ids onmap exactmap show ?thesis
    by blast
qed

theorem C1_rebuild_exact_witness:
  "mapRef (run [Mount True, MapLoad] start) =
     Some \<lparr>mapMarkers = markersFrom 8 PARIS_POIS, mapPopups = []\<rparr>
   \<and> onMapHeld (run [Mount True, MapLoad] start)
   \<and> length (markersRef (addMarkers Food (run [Mount True, MapLoad] start))) = 2
   \<and> distinct (map handle (markersRef (addMarkers Food (run [Mount True, MapLoad] start))))
   \<and> map_option (\<lambda>m. length (mapMarkers m)) (mapRef (addMarkers Food (run [Mount True, MapLoad] start)))
       = Some 2"
proof -
  have present: "mapRef (run [Mount True, MapLoad] start) =
      Some \<lparr>mapMarkers = markersFrom 8 PARIS_POIS, mapPopups = []\<rparr>"
    by (simp add: loaded_state)
  have held: "onMapHeld (run [Mount True, MapLoad] start)"
    by (rule reachable_onMapHeld)
  note rebuilt = C1_rebuild_exact [OF present, of Food]
  have food: "length (filter (\<lambda>poi. category poi = Food) PARIS_POIS) = 2"
    by (simp add: PARIS_POIS_def)
  from rebuilt [THEN conjunct1] food
  have two: "length (markersRef (addMarkers Food (run [Mount True, MapLoad] start))) = 2"
    by simp
  from rebuilt held
  have "map_option mapMarkers (mapRef (addMarkers Food (run [Mount True, MapLoad] start))) =
      Some (markersRef (addMarkers Food (run [Mount True, MapLoad] start)))"
    by blast
  then have "map_option (\<lambda>m. length (mapMarkers m)) (mapRef (addMarkers Food (run [Mount True, MapLoad] start)))
      = Some (length (markersRef (addMarkers Food (run [Mount True, MapLoad] start))))"
    by (cases "mapRef (addMarkers Food (run [Mount True, MapLoad] start))") auto
  with two have onmap: "map_option (\<lambda>m. length (mapMarkers m))
      (mapRef (addMarkers Food (run [Mount True, MapLoad] start))) = Some 2"
    by simp
  from rebuilt [THEN conjunct2, THEN conjunct2, THEN conjunct1] present held two onmap
  show ?thesis by blast
qed



text \<open>
  Claim C5. For every filter value \<open>f\<close> and every state, calling \<^verbatim>\<open>addMarkers\<close> twice
  with \<open>f\<close> leaves as many markers held as calling it once, at the same coordinates and
  with the same elements. When the map showed held markers only, it shows after the
  second call as many markers as after the first, at the same coordinates; and if
  there is a map, these are exactly the markers held, one per visible POI: the second
  call duplicates nothing.
\<close>

theorem C5_rebuild_idempotent:
  "length (markersRef (addMarkers f (addMarkers f s))) = length (markersRef (addMarkers f s))
   \<and> map lngLat (markersRef (addMarkers f (addMarkers f s))) = map lngLat (markersRef (addMarkers f s))
   \<and> map element (markersRef (addMarkers f (addMarkers f s))) = map element (markersRef (addMarkers f s))
   \<and> (onMapHeld s \<longrightarrow>
        map_option (\<lambda>m. map lngLat (mapMarkers m)) (mapRef (addMarkers f (addMarkers f s))) =
        map_option (\<lambda>m. map lngLat (mapMarkers m)) (mapRef (addMarkers f s))
      \<and> map_option (\<lambda>m. length (mapMarkers m)) (mapRef (addMarkers f (addMarkers f s))) =
        map_option (\<lambda>m. length (mapMarkers m)) (mapRef (addMarkers f s)))
   \<and> (onMapHeld s \<longrightarrow> mapRef s \<noteq> None \<longrightarrow>
        map_option mapMarkers (mapRef (addMarkers f (addMarkers f s))) =
          Some (markersRef (addMarkers f (addMarkers f s)))
      \<and> map_option (\<lambda>m. length (mapMarkers m)) (mapRef (addMarkers f (addMarkers f s))) =
          Some (length (filteredPOIs f)))"
proof (cases "mapRef s")
  case None
  then show ?thesis by (simp add: addMarkers_None)
next
  case (Some m)
  let ?s1 = "addMarkers f s" and ?s2 = "addMarkers f (addMarkers f s)"
  from Some have one: "markersRef ?s1 = markersFrom (nextHandle s) (filteredPOIs f)"
    by (simp add: markersRef_addMarkers)
  from Some have "mapRef ?s1 \<noteq> None" by simp
  then obtain m1 where m1: "mapRef ?s1 = Some m1" by blast
  then have two: "markersRef ?s2 = markersFrom (nextHandle ?s1) (filteredPOIs f)"
    by (simp add: markersRef_addMarkers)
  have heldpart: "length (markersRef ?s2) = length (markersRef ?s1)
      \<and> map lngLat (markersRef ?s2) = map lngLat (markersRef ?s1)
      \<and> map element (markersRef ?s2) = map element (markersRef ?s1)"
    by (simp add: one two lngLat_markersFrom element_markersFrom)
  have mappart: "map_option mapMarkers (mapRef ?s1) = Some (markersRef ?s1)
      \<and> map_option mapMarkers (mapRef ?s2) = Some (markersRef ?s2)" if held: "onMapHeld s"
  proof -
    have held1: "onMapHeld ?s1" using held by (rule onMapHeld_addMarkers)
    from mapMarkers_addMarkers_held [OF Some held, of f]
         mapMarkers_addMarkers_held [OF m1 held1, of f]
    show ?thesis by blast
  qed
  have same: "map_option (\<lambda>m. map lngLat (mapMarkers m)) (mapRef ?s2) =
        map_option (\<lambda>m. map lngLat (mapMarkers m)) (mapRef ?s1)
      \<and> map_option (\<lambda>m. length (mapMarkers m)) (mapRef ?s2) =
        map_option (\<lambda>m. length (mapMarkers m)) (mapRef ?s1)
      \<and> map_option mapMarkers (mapRef ?s2) = Some (markersRef ?s2)
      \<and> map_option (\<lambda>m. length (mapMarkers m)) (mapRef ?s2) = Some (length (filteredPOIs f))"
    if held: "onMapHeld s"
  proof -
    from mappart [OF held] obtain a b where
      a: "mapRef ?s1 = Some a" "mapMarkers a = markersRef ?s1" and
      b: "mapRef ?s2 = Some b" "mapMarkers b = markersRef ?s2"
      by (auto simp: map_option_eq_Some)
    show ?thesis
      by (simp add: a b) (simp add: one two lngLat_markersFrom)
  qed
  from heldpart same show ?thesis by blast
qed

theorem C5_rebuild_idempotent_witness:
  "onMapHeld (run [Mount True, MapLoad] start)
   \<and> mapRef (run [Mount True, MapLoad] start) \<noteq> None
   \<and> length (markersRef (addMarkers Food (addMarkers Food (run [Mount True, MapLoad] start)))) =
       length (markersRef (addMarkers Food (run [Mount True, MapLoad] start)))
   \<and> map_option (\<lambda>m. length (mapMarkers m))
        (mapRef (addMarkers Food (addMarkers Food (run [Mount True, MapLoad] start)))) = Some 2"
proof -
  have held: "onMapHeld (run [Mount True, MapLoad] start)"
    by (rule reachable_onMapHeld)
  have two: "length (filteredPOIs Food) = 2"
    by (simp add: filteredPOIs_Food) (simp add: PARIS_POIS_def)
  from C5_rebuild_idempotent [of Food "run [Mount True, MapLoad] start"] held loaded_present
  have "length (markersRef (addMarkers Food (addMarkers Food (run [Mount True, MapLoad] start)))) =
       length (markersRef (addMarkers Food (run [Mount True, MapLoad] start)))
     \<and> map_option (\<lambda>m. length (mapMarkers m))
        (mapRef (addMarkers Food (addMarkers Food (run [Mount True, MapLoad] start)))) =
        Some (length (filteredPOIs Food))"
    by blast
  with two held loaded_present show ?thesis by simp
qed

text \<open>
  Claim C6. The store has 8 POIs: 2 landmarks, 2 art, 1 history, 1 culture and 2
  food. A rebuild with the filter \<^verbatim>\<open>'food'\<close> on an existing map holds exactly 2
  markers, at the coordinates of the POIs with ids "5" and "8"; when the map showed
  held markers only, these two are all the markers on the map.
\<close>

theorem C6_food_scenario:
  assumes "mapRef s \<noteq> None"
  shows "length PARIS_POIS = 8
       \<and> map (\<lambda>c. length (filter (\<lambda>poi. category poi = c) PARIS_POIS))
            [Landmarks, Art, History, Culture, Food] = [2, 2, 1, 1, 2]
       \<and> length (markersRef (addMarkers Food s)) = 2
       \<and> map lngLat (markersRef (addMarkers Food s)) =
            map coordinates (filter (\<lambda>poi. poi_id poi = ''5'' \<or> poi_id poi = ''8'') PARIS_POIS)
       \<and> map lngLat (markersRef (addMarkers Food s)) = [(2.3387, 48.8532), (2.3590, 48.8575)]
       \<and> (onMapHeld s \<longrightarrow>
            map_option mapMarkers (mapRef (addMarkers Food s)) = Some (markersRef (addMarkers Food s))
          \<and> map_option (\<lambda>m. map lngLat (mapMarkers m)) (mapRef (addMarkers Food s)) =
              Some [(2.3387, 48.8532), (2.3590, 48.8575)])"
proof -
  from assms obtain m where m: "mapRef s = Some m" by blast
  have store: "length PARIS_POIS = 8"
    by (simp add: PARIS_POIS_def)
  have cats: "map (\<lambda>c. length (filter (\<lambda>poi. category poi = c) PARIS_POIS))
            [Landmarks, Art, History, Culture, Food] = [2, 2, 1, 1, 2]"
    by (simp add: PARIS_POIS_def)
  have held: "markersRef (addMarkers Food s) = markersFrom (nextHandle s) (filteredPOIs Food)"
    using assms by (rule markersRef_addMarkers)
  have at: "map lngLat (markersRef (addMarkers Food s)) =
            map coordinates (filter (\<lambda>poi. poi_id poi = ''5'' \<or> poi_id poi = ''8'') PARIS_POIS)"
    by (simp only: held lngLat_markersFrom filteredPOIs_Food)
  have coords: "map coordinates (filter (\<lambda>poi. poi_id poi = ''5'' \<or> poi_id poi = ''8'') PARIS_POIS)
      = [(2.3387, 48.8532), (2.3590, 48.8575)]"
    by (simp add: PARIS_POIS_def)
  have two: "length (markersRef (addMarkers Food s)) = 2"
    using arg_cong [OF at [unfolded coords], of length] by simp
  have onmap: "map_option mapMarkers (mapRef (addMarkers Food s)) = Some (markersRef (addMarkers Food s))
          \<and> map_option (\<lambda>m. map lngLat (mapMarkers m)) (mapRef (addMarkers Food s)) =
              Some [(2.3387, 48.8532), (2.3590, 48.8575)]" if "onMapHeld s"
  proof -
    from mapMarkers_addMarkers_held [OF m that, of Food] obtain a where
      a: "mapRef (addMarkers Food s) = Some a" "mapMarkers a = markersRef (addMarkers Food s)"
      by (auto simp: map_option_eq_Some)
    from at [unfolded coords] show ?thesis by (simp add: a)
  qed
  from store cats two at coords onmap show ?thesis
    by simp
qed

theorem C6_food_scenario_witness:
  "mapRef (run [Mount True, MapLoad] start) \<noteq> None
   \<and> onMapHeld (run [Mount True, MapLoad] start)
   \<and> map lngLat (markersRef (addMarkers Food (run [Mount True, MapLoad] start))) =
       [(2.3387, 48.8532), (2.3590, 48.8575)]
   \<and> map_option (\<lambda>m. map lngLat (mapMarkers m))
        (mapRef (addMarkers Food (run [Mount True, MapLoad] start))) =
       Some [(2.3387, 48.8532), (2.3590, 48.8575)]"
  using C6_food_scenario [OF loaded_present] loaded_present
        reachable_onMapHeld [of "[Mount True, MapLoad]"]
  by blast

text \<open>
  Claim C7. The filter bar has one chip per category, in the order all, landmarks,
  food, art, history, culture. Only the selected chip has a count badge; its value is
  the number of POIs of that category, or the number of all POIs for \<^verbatim>\<open>'all'\<close>.
  After the map has loaded with the initial filter \<^verbatim>\<open>'all'\<close>, 8 markers are held,
  the bar is rendered and the badge is 8.
\<close>

theorem C7_filter_bar:
  "map chip_id (filterBar sel) = [CatAll, Landmarks, Food, Art, History, Culture]
   \<and> map chip_label (filterBar sel) =
       [''All'', ''Landmarks'', ''Food'', ''Art'', ''History'', ''Culture'']
   \<and> map chip_badge (filterBar sel) =
       map (\<lambda>c. if c = sel
                then Some (if c = CatAll then length PARIS_POIS
                           else length (filter (\<lambda>poi. category poi = c) PARIS_POIS))
                else None)
           [CatAll, Landmarks, Food, Art, History, Culture]
   \<and> map chip_badge (filterBar CatAll) = [Some 8, None, None, None, None, None]
   \<and> render (run [Mount True, MapLoad] start) = MapView False (filterBar CatAll)
   \<and> length (markersRef (run [Mount True, MapLoad] start)) = 8"
proof -
  have ids: "map chip_id (filterBar sel) = [CatAll, Landmarks, Food, Art, History, Culture]"
    by (simp add: filterBar_def CATEGORIES_def)
  have labels: "map chip_label (filterBar sel) =
       [''All'', ''Landmarks'', ''Food'', ''Art'', ''History'', ''Culture'']"
    by (simp add: filterBar_def CATEGORIES_def)
  have badges: "map chip_badge (filterBar sel) =
       map (\<lambda>c. if c = sel
                then Some (if c = CatAll then length PARIS_POIS
                           else length (filter (\<lambda>poi. category poi = c) PARIS_POIS))
                else None)
           [CatAll, Landmarks, Food, Art, History, Culture]"
    by (simp add: filterBar_def CATEGORIES_def)
  have eight: "map chip_badge (filterBar CatAll) = [Some 8, None, None, None, None, None]"
    by (simp add: filterBar_def CATEGORIES_def PARIS_POIS_def)
  have view: "render (run [Mount True, MapLoad] start) = MapView False (filterBar CatAll)"
    by (simp add: loaded_state render_def)
  have markers: "length (markersRef (run [Mount True, MapLoad] start)) = 8"
    by (simp add: loaded_state) (simp add: PARIS_POIS_def)
  from ids labels badges eight view markers show ?thesis by blast
qed

theorem C7_filter_bar_witness:
  "map chip_badge (filterBar Food) = [None, None, Some 2, None, None, None]"
  using C7_filter_bar [of Food] by (simp add: PARIS_POIS_def)

text \<open>
  Claim C8. For every visible POI (the \<open>i\<close>-th of the filtered list), the click
  listener of its marker, run after the rebuild, puts a popup on the map that is
  anchored at the POI's coordinates and whose HTML contains the POI's name, its
  description and its category (the category value, such as \<^verbatim>\<open>landmarks\<close>). For the
  POI with id "1" the HTML contains "Eiffel Tower" and "landmarks".
\<close>

theorem C8_click_opens_popup:
  assumes present: "mapRef s \<noteq> None" and visible: "i < length (filteredPOIs f)"
  shows "\<exists>s' m p.
           onClick (markersRef (addMarkers f s) ! i) (addMarkers f s) = Inr s'
         \<and> mapRef s' = Some m \<and> p \<in> set (mapPopups m)
         \<and> popup_lngLat p = Some (coordinates (filteredPOIs f ! i))
         \<and> sublist (name (filteredPOIs f ! i)) (popup_html p)
         \<and> sublist (description (filteredPOIs f ! i)) (popup_html p)
         \<and> sublist (categoryString (category (filteredPOIs f ! i))) (popup_html p)
         \<and> (poi_id (filteredPOIs f ! i) = ''1'' \<longrightarrow>
              sublist ''Eiffel Tower'' (popup_html p) \<and> sublist ''landmarks'' (popup_html p))"
proof -
  let ?poi = "filteredPOIs f ! i" and ?s1 = "addMarkers f s"
  let ?mk = "markersRef ?s1 ! i"
  from present obtain m1 where m1: "mapRef ?s1 = Some m1" by fastforce
  have mk: "?mk = markerFor (nextHandle s + i) ?poi"
    using present visible by (simp add: markersRef_addMarkers markersFrom_nth)
  let ?p = "(clickPopup ?mk)\<lparr>popup_lngLat := Some (clickLngLat ?mk)\<rparr>"
  let ?m = "popupAddTo ?p m1"
  have click: "onClick ?mk ?s1 = Inr (?s1\<lparr>mapRef := Some ?m\<rparr>)"
    by (simp add: onClick_def m1)
  have shown: "?p \<in> set (mapPopups ?m)"
    by (simp add: popupAddTo_def)
  have anchor: "popup_lngLat ?p = Some (coordinates ?poi)"
    by (simp add: mk markerFor_def)
  have html: "popup_html ?p = popupHTML ?poi"
    by (simp add: mk markerFor_def)
  from visible have "?poi \<in> set (filteredPOIs f)" by simp
  with filteredPOIs_subset have store: "?poi \<in> set PARIS_POIS" by blast
  have one: "poi_id ?poi = ''1'' \<longrightarrow>
      sublist ''Eiffel Tower'' (popup_html ?p) \<and> sublist ''landmarks'' (popup_html ?p)"
  proof
    assume "poi_id ?poi = ''1''"
    with store have "name ?poi = ''Eiffel Tower''" "categoryString (category ?poi) = ''landmarks''"
      by (simp_all add: poi_1)
    with popupHTML_name [of ?poi] popupHTML_category [of ?poi] html
    show "sublist ''Eiffel Tower'' (popup_html ?p) \<and> sublist ''landmarks'' (popup_html ?p)"
      by simp
  qed
  have "mapRef (?s1\<lparr>mapRef := Some ?m\<rparr>) = Some ?m" by simp
  with click shown anchor html one popupHTML_name [of ?poi] popupHTML_description [of ?poi]
    popupHTML_category [of ?poi]
  show ?thesis
    by (metis (no_types, lifting))
qed

theorem C8_click_opens_popup_witness:
  "mapRef (run [Mount True, MapLoad] start) \<noteq> None \<and> 0 < length (filteredPOIs CatAll)
   \<and> (\<exists>s' m p.
         onClick (markersRef (addMarkers CatAll (run [Mount True, MapLoad] start)) ! 0)
                 (addMarkers CatAll (run [Mount True, MapLoad] start)) = Inr s'
       \<and> mapRef s' = Some m \<and> p \<in> set (mapPopups m)
       \<and> popup_lngLat p = Some (2.2945, 48.8584)
       \<and> sublist ''Eiffel Tower'' (popup_html p) \<and> sublist ''landmarks'' (popup_html p))"
  using C8_click_opens_popup [OF loaded_present first_visible(1)] loaded_present first_visible
  by (simp only: ) blast

text \<open>
  Claim C9. The cleanup function empties the marker array, clears the map ref and
  removes the map if there is one, from every state; before the map is removed, none
  of the held markers is on it any more. Unmounting after any sequence of events,
  whatever state the host is in, leaves no marker held, no map referenced and no map
  alive.
\<close>

theorem C9_teardown:
  "markersRef (cleanup s) = [] \<and> mapRef (cleanup s) = None
   \<and> mapsRemoved (cleanup s) = mapsRemoved s + (if mapRef s = None then 0 else 1)
   \<and> (\<forall>m. mapRef (cleanupMarkers s) = Some m \<longrightarrow>
         (\<forall>mk \<in> set (markersRef s). handle mk \<notin> handle ` set (mapMarkers m)))
   \<and> markersRef (step Unmount (run evs start)) = []
   \<and> mapRef (step Unmount (run evs start)) = None
   \<and> liveMaps (step Unmount (run evs start)) = 0"
  using unmount_reachable [OF consistent_reachable, of evs]
  by (simp add: cleanup_result cleanupMarkers_detached)

theorem C9_teardown_witness:
  "hostState (run [Mount True] start) = Initializing
   \<and> hostState (run [Mount True, MapLoad] start) = Loaded
   \<and> hostState (run [Mount True, MapErrorEvent] start) = Error
   \<and> markersRef (step Unmount (run [Mount True] start)) = []
   \<and> mapRef (step Unmount (run [Mount True] start)) = None
   \<and> markersRef (step Unmount (run [Mount True, MapLoad] start)) = []
   \<and> mapRef (step Unmount (run [Mount True, MapLoad] start)) = None
   \<and> markersRef (step Unmount (run [Mount True, MapErrorEvent] start)) = []
   \<and> mapRef (step Unmount (run [Mount True, MapErrorEvent] start)) = None
   \<and> liveMaps (step Unmount (run [Mount True, MapErrorEvent] start)) = 0"
proof -
  have states: "hostState (run [Mount True] start) = Initializing"
    "hostState (run [Mount True, MapLoad] start) = Loaded"
    "hostState (run [Mount True, MapErrorEvent] start) = Error"
    by (simp_all add: mounted_state loaded_state error_state hostState_def showsError_def)
  from states
    C9_teardown [of "run [Mount True] start" "[Mount True]"]
    C9_teardown [of "run [Mount True] start" "[Mount True, MapLoad]"]
    C9_teardown [of "run [Mount True] start" "[Mount True, MapErrorEvent]"]
  show ?thesis by blast
qed

text \<open>
  Claim C10. When the container is absent or a map instance already exists, the
  initialisation effect returns the state as it is and constructs nothing. Running
  the effect any number of times from a state whose only live map is the one in the
  ref leaves at most one map alive, and so does every sequence of events.
\<close>

theorem C10_single_map:
  "(\<not> containerRef s \<or> mapRef s \<noteq> None \<longrightarrow> initEffect ok s = s)
   \<and> (liveMaps s = (if mapRef s = None then 0 else 1) \<longrightarrow>
         0 \<le> liveMaps (foldl (\<lambda>s' ok'. initEffect ok' s') s oks)
       \<and> liveMaps (foldl (\<lambda>s' ok'. initEffect ok' s') s oks) \<le> 1)
   \<and> 0 \<le> liveMaps (run evs start) \<and> liveMaps (run evs start) \<le> 1"
proof -
  have guard: "\<not> containerRef s \<or> mapRef s \<noteq> None \<longrightarrow> initEffect ok s = s"
    by (simp add: initEffect_def)
  have again: "liveMaps s = (if mapRef s = None then 0 else 1) \<longrightarrow>
         0 \<le> liveMaps (foldl (\<lambda>s' ok'. initEffect ok' s') s oks)
       \<and> liveMaps (foldl (\<lambda>s' ok'. initEffect ok' s') s oks) \<le> 1"
    by (simp add: live_initEffect_fold)
  have "liveMaps (run evs start) = (if mapRef (run evs start) = None then 0 else 1)"
    using consistent_reachable [of evs] by (simp add: consistent_def)
  then have "0 \<le> liveMaps (run evs start) \<and> liveMaps (run evs start) \<le> 1"
    by simp
  with guard again show ?thesis by blast
qed

theorem C10_single_map_witness:
  "mapRef (run [Mount True] start) \<noteq> None
   \<and> initEffect True (run [Mount True] start) = run [Mount True] start
   \<and> liveMaps (run [Mount True] start) = 1
   \<and> liveMaps (foldl (\<lambda>s' ok'. initEffect ok' s') (run [Mount True] start) [True, True]) \<le> 1"
proof -
  have present: "mapRef (run [Mount True] start) \<noteq> None"
    by (simp add: mounted_state)
  have live: "liveMaps (run [Mount True] start) = 1"
    by (simp add: mounted_state liveMaps_def)
  from C10_single_map [of "run [Mount True] start" True "[True, True]" "[]"] present live
  show ?thesis by simp
qed

text \<open>
  Claim C3 says that after the map has reported an error the error panel is shown, no
  marker is created, and a later filter change does nothing. The run below mounts the
  component with a map that constructs and then delivers the map's \<^verbatim>\<open>error\<close> event
  before any \<^verbatim>\<open>load\<close>. The error panel is rendered, but the listener also sets
  \<^verbatim>\<open>isLoading\<close> to false, so the marker effect runs; its guard finds the map
  object in the ref and 8 markers are created. On the other error path, a constructor
  that throws, the ref stays empty and no marker is created. In the error view no
  chip is rendered, so a filter change does not reach the component.
\<close>

theorem C3_load_error_builds_markers:
  "render (run [Mount True, MapErrorEvent] start) = ErrorPanel ''Failed to load map''
   \<and> hostState (run [Mount True, MapErrorEvent] start) = Error
   \<and> length (markersRef (run [Mount True, MapErrorEvent] start)) = 8
   \<and> map_option (\<lambda>m. length (mapMarkers m)) (mapRef (run [Mount True, MapErrorEvent] start)) = Some 8
   \<and> step (SelectCategory Food) (run [Mount True, MapErrorEvent] start) =
       run [Mount True, MapErrorEvent] start
   \<and> render (run [Mount False] start) = ErrorPanel ''Failed to initialize map''
   \<and> length (markersRef (run [Mount False] start)) = 0"
  by (simp add: error_state failed_state render_def hostState_def showsError_def PARIS_POIS_def)

text \<open>
  Claim C4 says that a rebuild before the map host has loaded does nothing. While the
  host is initialising this holds in every reachable state: no marker is held, the
  marker effect returns the state as it is, and a filter change leaves the markers
  and the map alone; and \<^verbatim>\<open>addMarkers\<close> itself does nothing without a map. But the
  readiness test of the effect is \<^verbatim>\<open>!isLoading\<close>, which the error listener makes
  true as well: in the run that mounts and then receives the map's \<^verbatim>\<open>error\<close> event
  the host goes from initialising to error, never loads, and the rebuild runs and
  puts 8 markers on the map.
\<close>

theorem C4_rebuild_before_loaded:
  "(hostState (run evs start) = Initializing \<longrightarrow>
        markersRef (run evs start) = []
      \<and> markerEffect (run evs start) = run evs start
      \<and> markersRef (step (SelectCategory c) (run evs start)) = []
      \<and> mapRef (step (SelectCategory c) (run evs start)) = mapRef (run evs start))
   \<and> (mapRef s = None \<longrightarrow> addMarkers f s = s)
   \<and> hostState (run [Mount True] start) = Initializing
   \<and> hostState (run [Mount True, MapErrorEvent] start) = Error
   \<and> markersRef (run [Mount True] start) = []
   \<and> length (markersRef (run [Mount True, MapErrorEvent] start)) = 8
   \<and> map_option (\<lambda>m. length (mapMarkers m)) (mapRef (run [Mount True, MapErrorEvent] start)) = Some 8"
proof -
  have quiet: "hostState (run evs start) = Initializing \<longrightarrow>
        markersRef (run evs start) = []
      \<and> markerEffect (run evs start) = run evs start
      \<and> markersRef (step (SelectCategory c) (run evs start)) = []
      \<and> mapRef (step (SelectCategory c) (run evs start)) = mapRef (run evs start)"
    by (intro impI conjI) (erule initializing_quiet)+
  have guard: "mapRef s = None \<longrightarrow> addMarkers f s = s"
    by (simp add: addMarkers_None)
  have runs: "hostState (run [Mount True] start) = Initializing
      \<and> hostState (run [Mount True, MapErrorEvent] start) = Error
      \<and> markersRef (run [Mount True] start) = []
      \<and> length (markersRef (run [Mount True, MapErrorEvent] start)) = 8
      \<and> map_option (\<lambda>m. length (mapMarkers m)) (mapRef (run [Mount True, MapErrorEvent] start)) = Some 8"
    by (simp add: mounted_state error_state hostState_def showsError_def PARIS_POIS_def)
  from quiet guard runs show ?thesis by blast
qed

theorem C4_rebuild_before_loaded_witness:
  "hostState (run [Mount True] start) = Initializing
   \<and> markerEffect (run [Mount True] start) = run [Mount True] start
   \<and> markersRef (step (SelectCategory Food) (run [Mount True] start)) = []
   \<and> mapRef (run [Mount False] start) = None
   \<and> addMarkers Food (run [Mount False] start) = run [Mount False] start"
proof -
  have none: "mapRef (run [Mount False] start) = None"
    by (simp add: failed_state)
  from C4_rebuild_before_loaded [of "[Mount True]" Food "run [Mount False] start" Food] none
  show ?thesis by blast
qed

end
